theory Spec2Isabelle
  imports Complex_Main "HOL-Library.List_Lexorder"
begin

text \<open>
  A model of \<open>seoul_sales_dashboard.py\<close>, the one source file of the repository: the
  keyword classifier of boroughs, the loading and coercion of the sales table, the
  borough and quarter filters, and the aggregates that the dashboard shows. The
  references to lines are to that file.

  Library code is modelled by what it does on the values that occur here: a pandas
  data frame as its labels and rows, \<open>groupby\<close>, \<open>mean\<close>, \<open>sort_values\<close>, \<open>sum\<close> and
  \<open>idxmax\<close> as list functions, an exception as a value of the type \<open>error\<close>. Two
  library functions are parameters: how Python prints a number (\<open>num_str\<close>) and which
  text pandas reads as a number (\<open>parse\<close>). Numbers are exact rationals. The layout of
  the page and the drawing of the charts are not modelled.
\<close>

section \<open>Strings and cells\<close>

text \<open>
  A Python \<open>str\<close> is a sequence of Unicode code points; it is modelled as the list of
  its code points, so that \<open>in\<close>, \<open>split\<close> and comparison work on the same units as in
  Python. Hangul literals of the source are written by their code points.
\<close>

type_synonym ustr = "nat list"

text \<open>
  A cell of the data frame that \<open>pd.read_csv\<close> returns: text, a number, or the missing
  value \<open>NaN\<close>. Numbers are exact rationals; floating-point rounding is not modelled.
\<close>

datatype cell = Str ustr | Num rat | NaN

text \<open>
  \<open>str(name)\<close>. Text is returned as it is and the missing value prints as \<open>nan\<close>. How
  Python formats a number is library code, taken as the parameter \<open>num_str\<close>.
\<close>

fun py_str :: "(rat \<Rightarrow> ustr) \<Rightarrow> cell \<Rightarrow> ustr" where
  "py_str num_str (Str s) = s"
| "py_str num_str (Num r) = num_str r"
| "py_str num_str NaN = [0x6E, 0x61, 0x6E]"

text \<open>
  \<open>kw in s\<close> on strings: \<open>kw\<close> occurs in \<open>s\<close> as a contiguous run, that is, \<open>s\<close> or one
  of its suffixes starts with \<open>kw\<close> (lemma \<open>py_in_iff\<close> below). The empty string occurs
  in every string.
\<close>

definition startswith :: "ustr \<Rightarrow> ustr \<Rightarrow> bool" where
  "startswith s kw = (take (length kw) s = kw)"

fun py_in :: "ustr \<Rightarrow> ustr \<Rightarrow> bool" where
  "py_in kw [] = (kw = [])"
| "py_in kw (c # s) = (startswith (c # s) kw \<or> py_in kw s)"

section \<open>The keyword table\<close>

text \<open>
  \<open>KEYWORD_TO_DISTRICT\<close> (lines 15-41 of the source) is a dict literal with ninety
  pairwise different keys, iterated by \<open>.items()\<close> in insertion order: an association
  list in the order of the literal (lemma \<open>keys_distinct\<close> below: no key is written
  twice, so no later value replaces an earlier one). The borough names are
  abbreviations of their code point lists. The keys in the order of the source, syllable
  by syllable in romanised form:

  \<^item> line 16: jong-ro, hye-hwa, chang-sin, in-sa-dong for jong-ro-gu

  \<^item> line 17: myeong-dong, nam-dae-mun, buk-chang-dong, eul-ji-ro for jung-gu

  \<^item> line 18: i-tae-won, han-nam, bo-gwang, yong-san for yong-san-gu

  \<^item> line 19: ma-jang, seong-su, haeng-dang for seong-dong-gu

  \<^item> line 20: geon-dae, jun-yang, hwa-yang, ja-yang for gwang-jin-gu

  \<^item> line 21: jang-an, cheong-ryang-ri, je-gi for dong-dae-mun-gu

  \<^item> line 22: myeon-mok, sang-bong, jung-hwa for jung-rang-gu

  \<^item> line 23: don-am, an-am, jong-am for seong-buk-gu

  \<^item> line 24: su-yu, mi-a, beon-dong for gang-buk-gu

  \<^item> line 25: ssang-mun, chang-dong, bang-hak for do-bong-gu

  \<^item> line 26: sang-gye, jung-gye, ha-gye for no-won-gu

  \<^item> line 27: yeon-seo, eung-am, bul-gwang for eun-pyeong-gu

  \<^item> line 28: i-dae, sin-chon, yeon-hui for seo-dae-mun-gu

  \<^item> line 29: hong-dae, hap-jeong, mang-won, gong-deok for ma-po-gu

  \<^item> line 30: mok-dong, sin-jeong, sin-wol for yang-cheon-gu

  \<^item> line 31: hwa-gok, bal-san, ma-gok for gang-seo-gu

  \<^item> line 32: gu-ro, gae-bong, o-ryu, sin-do-rim for gu-ro-gu

  \<^item> line 33: ga-san, si-heung, dok-san for geum-cheon-gu

  \<^item> line 34: yeong-deung-po, dang-san, mun-rae, yeo-ui-do for yeong-deung-po-gu

  \<^item> line 35: no-ryang-jin, sang-do, sa-dang, heuk-seok for dong-jak-gu

  \<^item> line 36: sin-rim, bong-cheon, nam-hyeon for gwan-ak-gu

  \<^item> line 37: gang-nam-yeok, gyo-dae, bang-bae, yang-jae for seo-cho-gu

  \<^item> line 38: ap-gu-jeong, cheong-dam, sam-seong-dong, yeok-sam, non-hyeon, sin-sa,
    ga-ro-su-gil for gang-nam-gu

  \<^item> line 39: jam-sil, ga-rak, mun-jeong, seok-chon for song-pa-gu

  \<^item> line 40: cheon-ho, myeong-il, am-sa, seong-nae for gang-dong-gu
\<close>

abbreviation Jongro_gu :: ustr where
  "Jongro_gu \<equiv> [0xC885, 0xB85C, 0xAD6C]"

abbreviation Jung_gu :: ustr where
  "Jung_gu \<equiv> [0xC911, 0xAD6C]"

abbreviation Yongsan_gu :: ustr where
  "Yongsan_gu \<equiv> [0xC6A9, 0xC0B0, 0xAD6C]"

abbreviation Seongdong_gu :: ustr where
  "Seongdong_gu \<equiv> [0xC131, 0xB3D9, 0xAD6C]"

abbreviation Gwangjin_gu :: ustr where
  "Gwangjin_gu \<equiv> [0xAD11, 0xC9C4, 0xAD6C]"

abbreviation Dongdaemun_gu :: ustr where
  "Dongdaemun_gu \<equiv> [0xB3D9, 0xB300, 0xBB38, 0xAD6C]"

abbreviation Jungrang_gu :: ustr where
  "Jungrang_gu \<equiv> [0xC911, 0xB791, 0xAD6C]"

abbreviation Seongbuk_gu :: ustr where
  "Seongbuk_gu \<equiv> [0xC131, 0xBD81, 0xAD6C]"

abbreviation Gangbuk_gu :: ustr where
  "Gangbuk_gu \<equiv> [0xAC15, 0xBD81, 0xAD6C]"

abbreviation Dobong_gu :: ustr where
  "Dobong_gu \<equiv> [0xB3C4, 0xBD09, 0xAD6C]"

abbreviation Nowon_gu :: ustr where
  "Nowon_gu \<equiv> [0xB178, 0xC6D0, 0xAD6C]"

abbreviation Eunpyeong_gu :: ustr where
  "Eunpyeong_gu \<equiv> [0xC740, 0xD3C9, 0xAD6C]"

abbreviation Seodaemun_gu :: ustr where
  "Seodaemun_gu \<equiv> [0xC11C, 0xB300, 0xBB38, 0xAD6C]"

abbreviation Mapo_gu :: ustr where
  "Mapo_gu \<equiv> [0xB9C8, 0xD3EC, 0xAD6C]"

abbreviation Yangcheon_gu :: ustr where
  "Yangcheon_gu \<equiv> [0xC591, 0xCC9C, 0xAD6C]"

abbreviation Gangseo_gu :: ustr where
  "Gangseo_gu \<equiv> [0xAC15, 0xC11C, 0xAD6C]"

abbreviation Guro_gu :: ustr where
  "Guro_gu \<equiv> [0xAD6C, 0xB85C, 0xAD6C]"

abbreviation Geumcheon_gu :: ustr where
  "Geumcheon_gu \<equiv> [0xAE08, 0xCC9C, 0xAD6C]"

abbreviation Yeongdeungpo_gu :: ustr where
  "Yeongdeungpo_gu \<equiv> [0xC601, 0xB4F1, 0xD3EC, 0xAD6C]"

abbreviation Dongjak_gu :: ustr where
  "Dongjak_gu \<equiv> [0xB3D9, 0xC791, 0xAD6C]"

abbreviation Gwanak_gu :: ustr where
  "Gwanak_gu \<equiv> [0xAD00, 0xC545, 0xAD6C]"

abbreviation Seocho_gu :: ustr where
  "Seocho_gu \<equiv> [0xC11C, 0xCD08, 0xAD6C]"

abbreviation Gangnam_gu :: ustr where
  "Gangnam_gu \<equiv> [0xAC15, 0xB0A8, 0xAD6C]"

abbreviation Songpa_gu :: ustr where
  "Songpa_gu \<equiv> [0xC1A1, 0xD30C, 0xAD6C]"

abbreviation Gangdong_gu :: ustr where
  "Gangdong_gu \<equiv> [0xAC15, 0xB3D9, 0xAD6C]"


definition KEYWORD_TO_DISTRICT :: "(ustr \<times> ustr) list" where
  "KEYWORD_TO_DISTRICT =
    [([0xC885, 0xB85C], Jongro_gu),
     ([0xD61C, 0xD654], Jongro_gu),
     ([0xCC3D, 0xC2E0], Jongro_gu),
     ([0xC778, 0xC0AC, 0xB3D9], Jongro_gu),
     ([0xBA85, 0xB3D9], Jung_gu),
     ([0xB0A8, 0xB300, 0xBB38], Jung_gu),
     ([0xBD81, 0xCC3D, 0xB3D9], Jung_gu),
     ([0xC744, 0xC9C0, 0xB85C], Jung_gu),
     ([0xC774, 0xD0DC, 0xC6D0], Yongsan_gu),
     ([0xD55C, 0xB0A8], Yongsan_gu),
     ([0xBCF4, 0xAD11], Yongsan_gu),
     ([0xC6A9, 0xC0B0], Yongsan_gu),
     ([0xB9C8, 0xC7A5], Seongdong_gu),
     ([0xC131, 0xC218], Seongdong_gu),
     ([0xD589, 0xB2F9], Seongdong_gu),
     ([0xAC74, 0xB300], Gwangjin_gu),
     ([0xC900, 0xC591], Gwangjin_gu),
     ([0xD654, 0xC591], Gwangjin_gu),
     ([0xC790, 0xC591], Gwangjin_gu),
     ([0xC7A5, 0xC548], Dongdaemun_gu),
     ([0xCCAD, 0xB7C9, 0xB9AC], Dongdaemun_gu),
     ([0xC81C, 0xAE30], Dongdaemun_gu),
     ([0xBA74, 0xBAA9], Jungrang_gu),
     ([0xC0C1, 0xBD09], Jungrang_gu),
     ([0xC911, 0xD654], Jungrang_gu),
     ([0xB3C8, 0xC554], Seongbuk_gu),
     ([0xC548, 0xC554], Seongbuk_gu),
     ([0xC885, 0xC554], Seongbuk_gu),
     ([0xC218, 0xC720], Gangbuk_gu),
     ([0xBBF8, 0xC544], Gangbuk_gu),
     ([0xBC88, 0xB3D9], Gangbuk_gu),
     ([0xC30D, 0xBB38], Dobong_gu),
     ([0xCC3D, 0xB3D9], Dobong_gu),
     ([0xBC29, 0xD559], Dobong_gu),
     ([0xC0C1, 0xACC4], Nowon_gu),
     ([0xC911, 0xACC4], Nowon_gu),
     ([0xD558, 0xACC4], Nowon_gu),
     ([0xC5F0, 0xC11C], Eunpyeong_gu),
     ([0xC751, 0xC554], Eunpyeong_gu),
     ([0xBD88, 0xAD11], Eunpyeong_gu),
     ([0xC774, 0xB300], Seodaemun_gu),
     ([0xC2E0, 0xCD0C], Seodaemun_gu),
     ([0xC5F0, 0xD76C], Seodaemun_gu),
     ([0xD64D, 0xB300], Mapo_gu),
     ([0xD569, 0xC815], Mapo_gu),
     ([0xB9DD, 0xC6D0], Mapo_gu),
     ([0xACF5, 0xB355], Mapo_gu),
     ([0xBAA9, 0xB3D9], Yangcheon_gu),
     ([0xC2E0, 0xC815], Yangcheon_gu),
     ([0xC2E0, 0xC6D4], Yangcheon_gu),
     ([0xD654, 0xACE1], Gangseo_gu),
     ([0xBC1C, 0xC0B0], Gangseo_gu),
     ([0xB9C8, 0xACE1], Gangseo_gu),
     ([0xAD6C, 0xB85C], Guro_gu),
     ([0xAC1C, 0xBD09], Guro_gu),
     ([0xC624, 0xB958], Guro_gu),
     ([0xC2E0, 0xB3C4, 0xB9BC], Guro_gu),
     ([0xAC00, 0xC0B0], Geumcheon_gu),
     ([0xC2DC, 0xD765], Geumcheon_gu),
     ([0xB3C5, 0xC0B0], Geumcheon_gu),
     ([0xC601, 0xB4F1, 0xD3EC], Yeongdeungpo_gu),
     ([0xB2F9, 0xC0B0], Yeongdeungpo_gu),
     ([0xBB38, 0xB798], Yeongdeungpo_gu),
     ([0xC5EC, 0xC758, 0xB3C4], Yeongdeungpo_gu),
     ([0xB178, 0xB7C9, 0xC9C4], Dongjak_gu),
     ([0xC0C1, 0xB3C4], Dongjak_gu),
     ([0xC0AC, 0xB2F9], Dongjak_gu),
     ([0xD751, 0xC11D], Dongjak_gu),
     ([0xC2E0, 0xB9BC], Gwanak_gu),
     ([0xBD09, 0xCC9C], Gwanak_gu),
     ([0xB0A8, 0xD604], Gwanak_gu),
     ([0xAC15, 0xB0A8, 0xC5ED], Seocho_gu),
     ([0xAD50, 0xB300], Seocho_gu),
     ([0xBC29, 0xBC30], Seocho_gu),
     ([0xC591, 0xC7AC], Seocho_gu),
     ([0xC555, 0xAD6C, 0xC815], Gangnam_gu),
     ([0xCCAD, 0xB2F4], Gangnam_gu),
     ([0xC0BC, 0xC131, 0xB3D9], Gangnam_gu),
     ([0xC5ED, 0xC0BC], Gangnam_gu),
     ([0xB17C, 0xD604], Gangnam_gu),
     ([0xC2E0, 0xC0AC], Gangnam_gu),
     ([0xAC00, 0xB85C, 0xC218, 0xAE38], Gangnam_gu),
     ([0xC7A0, 0xC2E4], Songpa_gu),
     ([0xAC00, 0xB77D], Songpa_gu),
     ([0xBB38, 0xC815], Songpa_gu),
     ([0xC11D, 0xCD0C], Songpa_gu),
     ([0xCC9C, 0xD638], Gangdong_gu),
     ([0xBA85, 0xC77C], Gangdong_gu),
     ([0xC554, 0xC0AC], Gangdong_gu),
     ([0xC131, 0xB0B4], Gangdong_gu)]"

text \<open>The label of a row that no keyword matches: U+AE30 U+D0C0 / U+BBF8 U+BD84 U+B958.\<close>

definition unclassified :: ustr where
  "unclassified = [0xAE30, 0xD0C0, 0x2F, 0xBBF8, 0xBD84, 0xB958]"

section \<open>The classifier\<close>

text \<open>
  \<open>match_district\<close> (lines 52-55): the loop over the items returns at the first keyword
  that occurs in \<open>str(name)\<close>; after the loop the function returns the sentinel.
\<close>

fun match_items :: "(ustr \<times> ustr) list \<Rightarrow> ustr \<Rightarrow> ustr" where
  "match_items [] s = unclassified"
| "match_items ((kw, district) # items) s = (if py_in kw s then district else match_items items s)"

definition match_district :: "(rat \<Rightarrow> ustr) \<Rightarrow> cell \<Rightarrow> ustr" where
  "match_district num_str name = match_items KEYWORD_TO_DISTRICT (py_str num_str name)"

section \<open>Data frames\<close>

text \<open>
  A pandas data frame: its column labels in order and its rows. A row gives the cell of
  every column; what it gives outside \<open>columns\<close> is never read, since every access by
  label first checks the label and raises \<open>KeyError\<close> otherwise. The labels of a frame
  that \<open>pd.read_csv\<close> returns are pairwise different (it renames a repeated header).
\<close>

datatype error = KeyError | ValueError | IndexError | TypeError

record dataframe =
  columns :: "ustr list"
  rows :: "(ustr \<Rightarrow> cell) list"

text \<open>\<open>pd.DataFrame()\<close> and the attribute \<open>.empty\<close> (true when either axis has length 0).\<close>

definition empty_frame :: dataframe where
  "empty_frame = \<lparr>columns = [], rows = []\<rparr>"

definition df_empty :: "dataframe \<Rightarrow> bool" where
  "df_empty df = (columns df = [] \<or> rows df = [])"

text \<open>\<open>df[c]\<close>: the cells of column \<open>c\<close>, row by row.\<close>

definition column :: "dataframe \<Rightarrow> ustr \<Rightarrow> error + cell list" where
  "column df c = (if c \<in> set (columns df) then Inr (map (\<lambda>r. r c) (rows df)) else Inl KeyError)"

text \<open>
  \<open>df[c] = values\<close>, the values computed from each row: an existing column is replaced
  in place, a new one is appended after the others.
\<close>

definition assign :: "dataframe \<Rightarrow> ustr \<Rightarrow> ((ustr \<Rightarrow> cell) \<Rightarrow> cell) \<Rightarrow> dataframe" where
  "assign df c f =
     \<lparr>columns = (if c \<in> set (columns df) then columns df else columns df @ [c]),
      rows = map (\<lambda>r. r(c := f r)) (rows df)\<rparr>"

text \<open>\<open>df[mask]\<close>: the rows on which the mask (here \<open>keep\<close>) holds, under the same columns.\<close>

definition select_rows :: "((ustr \<Rightarrow> cell) \<Rightarrow> bool) \<Rightarrow> dataframe \<Rightarrow> dataframe" where
  "select_rows keep df = \<lparr>columns = columns df, rows = filter keep (rows df)\<rparr>"

subsection \<open>Column labels and label patterns of the source\<close>

text \<open>
  In the comments a hyphen separates the romanised syllables:
  sang-gwon _ ko-deu _ myeong (area name), ja-chi-gu (borough),
  gi-jun _ nyeon-bun-gi _ ko-deu (quarter code), seo-bi-seu _ eop-jong _ ko-deu _ myeong
  (business category), dang-wol _ mae-chul _ geum-aek (monthly sales amount),
  nam-seong / yeo-seong _ mae-chul _ geum-aek (male / female sales amount);
  the patterns mae-chul _ geum-aek (sales amount), mae-chul _ geon-su (sales count) and
  yeon-ryeong-dae (age bracket); the suffix dae.
\<close>

definition area_col :: ustr where
  "area_col = [0xC0C1, 0xAD8C, 0x5F, 0xCF54, 0xB4DC, 0x5F, 0xBA85]"

definition district_col :: ustr where
  "district_col = [0xC790, 0xCE58, 0xAD6C]"

definition quarter_col :: ustr where
  "quarter_col = [0xAE30, 0xC900, 0x5F, 0xB144, 0xBD84, 0xAE30, 0x5F, 0xCF54, 0xB4DC]"

definition category_col :: ustr where
  "category_col = [0xC11C, 0xBE44, 0xC2A4, 0x5F, 0xC5C5, 0xC885, 0x5F, 0xCF54, 0xB4DC, 0x5F, 0xBA85]"

definition amount_col :: ustr where
  "amount_col = [0xB2F9, 0xC6D4, 0x5F, 0xB9E4, 0xCD9C, 0x5F, 0xAE08, 0xC561]"

definition male_col :: ustr where
  "male_col = [0xB0A8, 0xC131, 0x5F, 0xB9E4, 0xCD9C, 0x5F, 0xAE08, 0xC561]"

definition female_col :: ustr where
  "female_col = [0xC5EC, 0xC131, 0x5F, 0xB9E4, 0xCD9C, 0x5F, 0xAE08, 0xC561]"

definition sales_amount :: ustr where
  "sales_amount = [0xB9E4, 0xCD9C, 0x5F, 0xAE08, 0xC561]"

definition sales_count :: ustr where
  "sales_count = [0xB9E4, 0xCD9C, 0x5F, 0xAC74, 0xC218]"

definition age_bracket :: ustr where
  "age_bracket = [0xC5F0, 0xB839, 0xB300]"

definition dae :: ustr where
  "dae = [0xB300]"

lemmas label_defs =
  area_col_def district_col_def quarter_col_def category_col_def amount_col_def
  male_col_def female_col_def sales_amount_def sales_count_def age_bracket_def dae_def

section \<open>Loading\<close>

text \<open>
  \<open>pd.to_numeric(column, errors='coerce')\<close> cell by cell: a number stays, text that the
  parser reads becomes its number, anything else becomes \<open>NaN\<close>. The parser of pandas is
  library code, taken as the parameter \<open>parse\<close> (\<open>None\<close> for text it cannot read).
  \<open>.fillna(0)\<close> then replaces \<open>NaN\<close> by zero.
\<close>

fun to_numeric :: "(ustr \<Rightarrow> rat option) \<Rightarrow> cell \<Rightarrow> cell" where
  "to_numeric parse (Num x) = Num x"
| "to_numeric parse (Str s) = (case parse s of Some x \<Rightarrow> Num x | None \<Rightarrow> NaN)"
| "to_numeric parse NaN = NaN"

fun fillna0 :: "cell \<Rightarrow> cell" where
  "fillna0 NaN = Num 0"
| "fillna0 c = c"

text \<open>
  Line 60: the labels that contain one of the two patterns (the regular expression is
  an alternation of two literal strings). Line 62 for one column.
\<close>

definition numeric_col :: "ustr \<Rightarrow> bool" where
  "numeric_col c = (py_in sales_amount c \<or> py_in sales_count c)"

definition numeric_cols :: "dataframe \<Rightarrow> ustr list" where
  "numeric_cols df = filter numeric_col (columns df)"

definition coerce :: "(ustr \<Rightarrow> rat option) \<Rightarrow> ustr \<Rightarrow> dataframe \<Rightarrow> dataframe" where
  "coerce parse col df = assign df col (\<lambda>r. fillna0 (to_numeric parse (r col)))"

text \<open>
  The values that the dashboard shows, under the names of the source: lines 96-102 and
  105, and the two sums of line 128. The table and the chart of lines 137-151 show the
  first ten entries of \<open>industry_rank\<close>.
\<close>

record summary =
  total_sales :: int
  age_totals :: "(ustr \<times> rat) list"
  main_age_group :: ustr
  industry_rank :: "(cell \<times> rat) list"
  top_industry :: cell
  top_industry_val :: rat
  gender_data :: "rat list"

text \<open>
  What the script shows, in order. \<open>Error_message\<close> is the \<open>st.error\<close> of line 46,
  \<open>Filters\<close> the two select boxes of the sidebar with their options, \<open>Warning_message\<close>
  the \<open>st.warning\<close> of line 89, \<open>Dashboard\<close> the metrics, charts and table of lines
  91-158, \<open>Footer\<close> the sidebar lines 160-161.
\<close>

datatype event =
  Error_message | Filters "ustr list" "cell list" | Warning_message | Dashboard summary | Footer

text \<open>
  \<open>load_data\<close> (lines 44-64). The argument \<open>file\<close> is \<open>None\<close> when
  \<open>os.path.exists(FILE_PATH)\<close> is false, and otherwise the frame that \<open>pd.read_csv\<close>
  returns for the file. The result is what the function shows and what it returns (or
  the exception that leaves it: \<open>df[area_col]\<close> on a frame without that column). The
  decorator \<open>st.cache_data\<close> keeps the result for later runs and does not change it.
\<close>

definition load_data ::
  "(rat \<Rightarrow> ustr) \<Rightarrow> (ustr \<Rightarrow> rat option) \<Rightarrow> dataframe option \<Rightarrow> event list \<times> (error + dataframe)" where
  "load_data num_str parse file =
     (case file of
        None \<Rightarrow> ([Error_message], Inr empty_frame)
      | Some csv \<Rightarrow>
          ([], if area_col \<in> set (columns csv) then
                 let df = assign csv district_col (\<lambda>r. Str (match_district num_str (r area_col)))
                 in Inr (fold (coerce parse) (numeric_cols df) df)
               else Inl KeyError))"

text \<open>
  A row of the loaded frame in closed form, used to state what \<open>load_data\<close> returns
  (lemma \<open>load_data_Some\<close> proves that it returns this): the cells of the row of the file,
  coerced in the columns whose label matches a pattern, and the label of the classifier
  in the borough column.
\<close>

definition loaded_row ::
  "(rat \<Rightarrow> ustr) \<Rightarrow> (ustr \<Rightarrow> rat option) \<Rightarrow> dataframe \<Rightarrow> (ustr \<Rightarrow> cell) \<Rightarrow> ustr \<Rightarrow> cell" where
  "loaded_row num_str parse csv r c =
     (if numeric_col c \<and> c \<in> set (columns csv) then fillna0 (to_numeric parse (r c))
      else if c = district_col then Str (match_district num_str (r area_col))
      else r c)"

section \<open>Filters\<close>

text \<open>
  Line 75: the borough options are the distinct labels of the borough column other than
  the sentinel, in ascending string order (code point by code point, which is the
  lexicographic order on the code point lists). After \<open>load_data\<close> the column holds
  labels only; a cell that is not text is passed over.
\<close>

definition districts :: "dataframe \<Rightarrow> error + ustr list" where
  "districts df =
     (case column df district_col of
        Inl e \<Rightarrow> Inl e
      | Inr cs \<Rightarrow> Inr (sort (remdups [d. Str d \<leftarrow> cs, d \<noteq> unclassified])))"

text \<open>
  \<open>st.sidebar.selectbox\<close> (line 76) returns one of its options, and \<open>None\<close> when there
  is none. The preselected index only says which option is chosen before the user
  chooses.
\<close>

definition selectable :: "ustr list \<Rightarrow> ustr option \<Rightarrow> bool" where
  "selectable opts selected = (case selected of None \<Rightarrow> opts = [] | Some d \<Rightarrow> d \<in> set opts)"

text \<open>
  Lines 78-79: the distinct cells of the quarter column. \<open>sorted\<close> raises \<open>TypeError\<close>
  when it has to compare text with a number. The descending order of the options is
  presentation; they are kept in the order of first occurrence, as \<open>unique()\<close> gives them.
\<close>

fun is_Str :: "cell \<Rightarrow> bool" where
  "is_Str (Str s) = True"
| "is_Str c = False"

definition quarters :: "dataframe \<Rightarrow> error + cell list" where
  "quarters df =
     (case column df quarter_col of
        Inl e \<Rightarrow> Inl e
      | Inr cs \<Rightarrow>
          if list_ex is_Str cs \<and> list_ex (\<lambda>c. \<not> is_Str c) cs then Inl TypeError
          else Inr (rev (remdups (rev cs))))"

text \<open>
  The choice in the second select box (line 80), by what lines 83-86 make of it: the
  option for all quarters, an option \<open>str(q)\<close> that \<open>int\<close> reads as the integer \<open>n\<close>, or
  an option that \<open>int\<close> rejects with \<open>ValueError\<close>.
\<close>

datatype qsel = All_quarters | Quarter int | Not_an_integer

text \<open>Elementwise \<open>==\<close> of a column with the chosen borough and with the chosen quarter.\<close>

fun eq_district :: "cell \<Rightarrow> ustr option \<Rightarrow> bool" where
  "eq_district (Str s) (Some d) = (s = d)"
| "eq_district c selected = False"

fun eq_quarter :: "cell \<Rightarrow> int \<Rightarrow> bool" where
  "eq_quarter (Num x) n = (x = of_int n)"
| "eq_quarter c n = False"

text \<open>Lines 83-86.\<close>

definition sub_df :: "dataframe \<Rightarrow> ustr option \<Rightarrow> qsel \<Rightarrow> error + dataframe" where
  "sub_df df selected_dist selected_q =
     (if district_col \<notin> set (columns df) then Inl KeyError
      else (case selected_q of
        All_quarters \<Rightarrow> Inr (select_rows (\<lambda>r. eq_district (r district_col) selected_dist) df)
      | Quarter n \<Rightarrow>
          if quarter_col \<notin> set (columns df) then Inl KeyError
          else Inr (select_rows (\<lambda>r. eq_district (r district_col) selected_dist \<and>
                                      eq_quarter (r quarter_col) n) df)
      | Not_an_integer \<Rightarrow> if quarter_col \<notin> set (columns df) then Inl KeyError else Inl ValueError))"

section \<open>Aggregation\<close>

text \<open>
  The numbers of a column. After \<open>load_data\<close> every column that the aggregation reads
  holds numbers only (lemma \<open>load_data_numeric\<close> below); on any other cell the model
  stops with \<open>TypeError\<close> instead of following the arithmetic of pandas on text and on
  missing values.
\<close>

fun nums :: "cell list \<Rightarrow> error + rat list" where
  "nums [] = Inr []"
| "nums (Num x # cs) = (case nums cs of Inl e \<Rightarrow> Inl e | Inr xs \<Rightarrow> Inr (x # xs))"
| "nums (c # cs) = Inl TypeError"

definition col_nums :: "dataframe \<Rightarrow> ustr \<Rightarrow> error + rat list" where
  "col_nums df c = (case column df c of Inl e \<Rightarrow> Inl e | Inr cs \<Rightarrow> nums cs)"

definition col_sum :: "dataframe \<Rightarrow> ustr \<Rightarrow> error + rat" where
  "col_sum df c = (case col_nums df c of Inl e \<Rightarrow> Inl e | Inr xs \<Rightarrow> Inr (sum_list xs))"

text \<open>Line 95, and line 96: the sum of each of these columns over the view.\<close>

definition age_col :: "ustr \<Rightarrow> bool" where
  "age_col c = (py_in age_bracket c \<and> py_in sales_amount c)"

definition age_cols :: "dataframe \<Rightarrow> ustr list" where
  "age_cols df = filter age_col (columns df)"

fun column_sums :: "dataframe \<Rightarrow> ustr list \<Rightarrow> error + (ustr \<times> rat) list" where
  "column_sums view [] = Inr []"
| "column_sums view (c # cs) =
     (case col_sum view c of
        Inl e \<Rightarrow> Inl e
      | Inr v \<Rightarrow> (case column_sums view cs of Inl e \<Rightarrow> Inl e | Inr vs \<Rightarrow> Inr ((c, v) # vs)))"

text \<open>
  \<open>Series.idxmax()\<close>: the label of the first entry that holds the greatest value;
  \<open>ValueError\<close> on a series without entries.
\<close>

fun first_max :: "ustr \<times> rat \<Rightarrow> (ustr \<times> rat) list \<Rightarrow> ustr" where
  "first_max best [] = fst best"
| "first_max best (x # xs) = first_max (if snd best < snd x then x else best) xs"

fun idxmax :: "(ustr \<times> rat) list \<Rightarrow> error + ustr" where
  "idxmax [] = Inl ValueError"
| "idxmax (x # xs) = Inr (first_max x xs)"

text \<open>\<open>label.split('_')[1] + dae\<close> of line 97.\<close>

fun split :: "nat \<Rightarrow> ustr \<Rightarrow> ustr list" where
  "split sep [] = [[]]"
| "split sep (c # s) =
     (let parts = split sep s
      in if c = sep then [] # parts else (c # hd parts) # tl parts)"

fun item1 :: "'a list \<Rightarrow> error + 'a" where
  "item1 (x # y # xs) = Inr y"
| "item1 xs = Inl IndexError"

definition bracket_label :: "ustr \<Rightarrow> error + ustr" where
  "bracket_label c = (case item1 (split 0x5F c) of Inl e \<Rightarrow> Inl e | Inr b \<Rightarrow> Inr (b @ dae))"

text \<open>
  Line 100. \<open>groupby\<close> forms one group for each distinct category cell that is not
  missing, the groups in ascending order of their key (numbers before text);
  \<open>mean()\<close> is the sum of the group's amounts over their count; and
  \<open>sort_values(ascending=False)\<close> reverses the entries, sorts them in ascending order of
  the value and reverses the result, so that entries of equal value keep their order.
  (With numpy's default sort the order of equal values is not fixed beyond sixteen
  entries; no statement below depends on it.)
\<close>

definition group_keys :: "cell list \<Rightarrow> cell list" where
  "group_keys cats =
     map Num (sort (remdups [x. Num x \<leftarrow> cats])) @ map Str (sort (remdups [s. Str s \<leftarrow> cats]))"

definition mean :: "rat list \<Rightarrow> rat" where
  "mean xs = sum_list xs / of_nat (length xs)"

definition group_means :: "cell list \<Rightarrow> rat list \<Rightarrow> (cell \<times> rat) list" where
  "group_means cats vals =
     map (\<lambda>k. (k, mean [v. (c, v) \<leftarrow> zip cats vals, c = k])) (group_keys cats)"

definition sort_values_desc :: "(cell \<times> rat) list \<Rightarrow> (cell \<times> rat) list" where
  "sort_values_desc xs = rev (sort_key snd (rev xs))"

definition ranking :: "dataframe \<Rightarrow> error + (cell \<times> rat) list" where
  "ranking view =
     (case column view category_col of
        Inl e \<Rightarrow> Inl e
      | Inr cats \<Rightarrow>
          (case col_nums view amount_col of
             Inl e \<Rightarrow> Inl e
           | Inr vals \<Rightarrow> Inr (sort_values_desc (group_means cats vals))))"

text \<open>\<open>int(x)\<close> on a number: truncation towards zero (line 105).\<close>

definition py_int :: "rat \<Rightarrow> int" where
  "py_int x = (if 0 \<le> x then \<lfloor>x\<rfloor> else \<lceil>x\<rceil>)"

text \<open>
  Lines 95-102, 105 and 126-129: the values that the dashboard shows, computed in the
  order of the source. \<open>df\<close> is the loaded frame (line 95 reads its columns), \<open>view\<close> the
  filtered view.
\<close>

definition aggregate :: "dataframe \<Rightarrow> dataframe \<Rightarrow> error + summary" where
  "aggregate df view =
     (case column_sums view (age_cols df) of Inl e \<Rightarrow> Inl e | Inr totals \<Rightarrow>
     (case idxmax totals of Inl e \<Rightarrow> Inl e | Inr top_col \<Rightarrow>
     (case bracket_label top_col of Inl e \<Rightarrow> Inl e | Inr bracket \<Rightarrow>
     (case ranking view of Inl e \<Rightarrow> Inl e | Inr ranked \<Rightarrow>
     (case ranked of [] \<Rightarrow> Inl IndexError | leader # others \<Rightarrow>
     (case col_sum view amount_col of Inl e \<Rightarrow> Inl e | Inr amount \<Rightarrow>
     (case col_sum view male_col of Inl e \<Rightarrow> Inl e | Inr male \<Rightarrow>
     (case col_sum view female_col of Inl e \<Rightarrow> Inl e | Inr female \<Rightarrow>
        Inr \<lparr>total_sales = py_int amount, age_totals = totals, main_age_group = bracket,
             industry_rank = ranked, top_industry = fst leader, top_industry_val = snd leader,
             gender_data = [male, female]\<rparr>))))))))"

text \<open>Lines 88-158: the guard on the view and what is shown in either case.\<close>

definition render :: "dataframe \<Rightarrow> dataframe \<Rightarrow> error + event" where
  "render df view =
     (if df_empty view then Inr Warning_message
      else (case aggregate df view of Inl e \<Rightarrow> Inl e | Inr s \<Rightarrow> Inr (Dashboard s)))"

text \<open>
  The script from line 69 on, for one run: the file, and the user's two choices. The
  result is what is shown, or the exception that ends the run.
\<close>

definition app ::
  "(rat \<Rightarrow> ustr) \<Rightarrow> (ustr \<Rightarrow> rat option) \<Rightarrow> dataframe option \<Rightarrow> ustr option \<Rightarrow> qsel
     \<Rightarrow> error + event list" where
  "app num_str parse file selected_dist selected_q =
     (case load_data num_str parse file of
        (shown, Inl e) \<Rightarrow> Inl e
      | (shown, Inr df) \<Rightarrow>
          if df_empty df then Inr (shown @ [Footer])
          else
            (case districts df of Inl e \<Rightarrow> Inl e | Inr ds \<Rightarrow>
            (case quarters df of Inl e \<Rightarrow> Inl e | Inr qs \<Rightarrow>
            (case sub_df df selected_dist selected_q of Inl e \<Rightarrow> Inl e | Inr view \<Rightarrow>
            (case render df view of Inl e \<Rightarrow> Inl e | Inr shown' \<Rightarrow>
               Inr (shown @ [Filters ds qs, shown', Footer]))))))"

section \<open>Example frames\<close>

text \<open>
  Small frames on which the theorems below are instantiated. The two age columns are
  labelled yeon-ryeong-dae _ 10 _ mae-chul _ geum-aek and the same with 20. The parser
  of the examples reads the text \<open>7\<close> and nothing else; numbers print as \<open>0\<close>.
\<close>

definition ex_age10 :: ustr where
  "ex_age10 = [0xC5F0, 0xB839, 0xB300, 0x5F, 0x31, 0x30, 0x5F, 0xB9E4, 0xCD9C, 0x5F, 0xAE08, 0xC561]"

definition ex_age20 :: ustr where
  "ex_age20 = [0xC5F0, 0xB839, 0xB300, 0x5F, 0x32, 0x30, 0x5F, 0xB9E4, 0xCD9C, 0x5F, 0xAE08, 0xC561]"

definition ex_columns :: "ustr list" where
  "ex_columns =
     [area_col, quarter_col, category_col, amount_col, ex_age10, ex_age20, male_col, female_col]"

definition ex_row ::
  "cell \<Rightarrow> cell \<Rightarrow> cell \<Rightarrow> cell \<Rightarrow> cell \<Rightarrow> cell \<Rightarrow> cell \<Rightarrow> cell \<Rightarrow> ustr \<Rightarrow> cell" where
  "ex_row area quarter category amount a10 a20 male female =
     (\<lambda>c. NaN)(area_col := area, quarter_col := quarter, category_col := category,
       amount_col := amount, ex_age10 := a10, ex_age20 := a20, male_col := male,
       female_col := female)"

definition ex_num_str :: "rat \<Rightarrow> ustr" where
  "ex_num_str x = [0x30]"

definition ex_parse :: "ustr \<Rightarrow> rat option" where
  "ex_parse s = (if s = [0x37] then Some 7 else None)"

text \<open>
  Two rows of gang-nam-yeok (seo-cho-gu) with the categories \<open>A\<close> and \<open>B\<close> and the
  amounts 100 and 200, and one row of seo-ul-yeok, in which no keyword occurs. Two
  cells of the first row are text: \<open>7\<close>, which the parser reads, and \<open>x\<close>, which it
  does not.
\<close>

definition ex_csv :: dataframe where
  "ex_csv =
     \<lparr>columns = ex_columns,
      rows =
        [ex_row (Str [0xAC15, 0xB0A8, 0xC5ED, 0x20, 0xBA39, 0xC790, 0xACE8, 0xBAA9]) (Num 20231)
           (Str [0x41]) (Num 100) (Num 10) (Num 90) (Str [0x37]) (Str [0x78]),
         ex_row (Str [0xAC15, 0xB0A8, 0xC5ED]) (Num 20232)
           (Str [0x42]) (Num 200) (Num 50) (Num 150) (Num 120) (Num 80),
         ex_row (Str [0xC11C, 0xC6B8, 0xC5ED]) (Num 20231)
           (Str [0x42]) (Num 1000) (Num 500) (Num 500) (Num 500) (Num 500)]\<rparr>"

text \<open>
  The frame that \<open>load_data\<close> returns for \<open>ex_csv\<close> (lemma \<open>ex_load\<close>), and its view for
  the borough seo-cho-gu and all quarters (lemma \<open>ex_sub_df\<close>).
\<close>

definition ex_loaded :: dataframe where
  "ex_loaded =
     \<lparr>columns = ex_columns @ [district_col],
      rows = map (loaded_row ex_num_str ex_parse ex_csv) (rows ex_csv)\<rparr>"

definition ex_view :: dataframe where
  "ex_view = select_rows (\<lambda>r. eq_district (r district_col) (Some Seocho_gu)) ex_loaded"

text \<open>Its view for the borough seo-cho-gu and the quarter 20232: a single row.\<close>

definition ex_single :: dataframe where
  "ex_single =
     select_rows (\<lambda>r. eq_district (r district_col) (Some Seocho_gu) \<and>
                     eq_quarter (r quarter_col) 20232) ex_loaded"



section \<open>The classifier: first keyword in table order\<close>

lemma startswith_iff: "startswith s kw \<longleftrightarrow> (\<exists>post. s = kw @ post)"
proof
  assume "startswith s kw"
  then have "s = kw @ drop (length kw) s"
    unfolding startswith_def by (metis append_take_drop_id)
  then show "\<exists>post. s = kw @ post" ..
next
  assume "\<exists>post. s = kw @ post"
  then show "startswith s kw"
    unfolding startswith_def by auto
qed

text \<open>\<open>py_in\<close> is the substring test: \<open>kw\<close> occurs in \<open>s\<close> between some \<open>pre\<close> and \<open>post\<close>.\<close>

lemma py_in_iff: "py_in kw s \<longleftrightarrow> (\<exists>pre post. s = pre @ kw @ post)"
proof (induction s)
  case Nil
  then show ?case by auto
next
  case (Cons c s)
  show ?case
  proof
    assume "py_in kw (c # s)"
    then consider "startswith (c # s) kw" | "py_in kw s" by auto
    then show "\<exists>pre post. c # s = pre @ kw @ post"
    proof cases
      case 1
      then obtain post where "c # s = kw @ post"
        using startswith_iff by blast
      then have "c # s = [] @ kw @ post" by simp
      then show ?thesis by blast
    next
      case 2
      then obtain pre post where "s = pre @ kw @ post"
        using Cons.IH by blast
      then have "c # s = (c # pre) @ kw @ post" by simp
      then show ?thesis by blast
    qed
  next
    assume "\<exists>pre post. c # s = pre @ kw @ post"
    then obtain pre post where eq: "c # s = pre @ kw @ post" by blast
    show "py_in kw (c # s)"
    proof (cases pre)
      case Nil
      with eq have "startswith (c # s) kw"
        using startswith_iff by auto
      then show ?thesis by simp
    next
      case (Cons a pre')
      with eq have "s = pre' @ kw @ post" by simp
      then have "py_in kw s"
        using Cons.IH by blast
      then show ?thesis by simp
    qed
  qed
qed

text \<open>
  The loop returns the borough of the first item whose keyword occurs in the string, and
  the sentinel when no keyword does.
\<close>

lemma match_items_first:
  "(\<exists>pre kw d post. items = pre @ (kw, d) # post \<and> py_in kw s \<and>
      (\<forall>k \<in> set (map fst pre). \<not> py_in k s) \<and> match_items items s = d)
   \<or> ((\<forall>k \<in> set (map fst items). \<not> py_in k s) \<and> match_items items s = unclassified)"
proof (induction items)
  case Nil
  then show ?case by simp
next
  case (Cons a items)
  obtain kw d where a: "a = (kw, d)" by (cases a)
  show ?case
  proof (cases "py_in kw s")
    case True
    then have "a # items = [] @ (kw, d) # items \<and> py_in kw s \<and>
      (\<forall>k \<in> set (map fst []). \<not> py_in k s) \<and> match_items (a # items) s = d"
      using a by simp
    then show ?thesis by blast
  next
    case False
    from Cons.IH show ?thesis
    proof (elim disjE exE conjE)
      fix pre k' d' post
      assume "items = pre @ (k', d') # post" "py_in k' s"
        "\<forall>k \<in> set (map fst pre). \<not> py_in k s" "match_items items s = d'"
      then have "a # items = (a # pre) @ (k', d') # post \<and> py_in k' s \<and>
        (\<forall>k \<in> set (map fst (a # pre)). \<not> py_in k s) \<and> match_items (a # items) s = d'"
        using a False by simp
      then show ?thesis by blast
    next
      assume "\<forall>k \<in> set (map fst items). \<not> py_in k s" "match_items items s = unclassified"
      then show ?thesis
        using a False by simp
    qed
  qed
qed

lemma match_items_range: "match_items items s \<in> insert unclassified (set (map snd items))"
  by (induction items s rule: match_items.induct) auto

lemma match_items_no_keyword:
  "\<forall>k \<in> set (map fst items). \<not> py_in k s \<Longrightarrow> match_items items s = unclassified"
  by (induction items s rule: match_items.induct) auto

lemma keys_distinct: "distinct (map fst KEYWORD_TO_DISTRICT)"
  by (simp add: KEYWORD_TO_DISTRICT_def)

lemma boroughs_not_blank: "\<forall>d \<in> set (map snd KEYWORD_TO_DISTRICT). d \<noteq> []"
  by (simp add: KEYWORD_TO_DISTRICT_def)

lemma boroughs_not_sentinel: "unclassified \<notin> set (map snd KEYWORD_TO_DISTRICT)"
  by (simp add: KEYWORD_TO_DISTRICT_def unclassified_def)

lemma pyeongchang_dong: "match_items KEYWORD_TO_DISTRICT [0xD3C9, 0xCC3D, 0xB3D9] = Dobong_gu"
  by (simp add: KEYWORD_TO_DISTRICT_def startswith_def)

text \<open>
  Claim C1, as amended. For every area-name cell the classifier returns one label. It is
  the borough of the first keyword, in the order of the table, that occurs as a
  substring of the string form of the name (compared code point by code point, with no
  normalisation), and the sentinel when no keyword occurs in it. The name
  pyeong-chang-dong (U+D3C9 U+CC3D U+B3D9) is not an unmatched name: the keyword
  chang-dong (U+CC3D U+B3D9) occurs in it, and it is classified as do-bong-gu.
\<close>

theorem match_district_first_keyword:
  "((\<exists>pre kw d post. KEYWORD_TO_DISTRICT = pre @ (kw, d) # post \<and>
        (\<exists>a b. py_str num_str name = a @ kw @ b) \<and>
        (\<forall>k \<in> set (map fst pre). \<not> (\<exists>a b. py_str num_str name = a @ k @ b)) \<and>
        match_district num_str name = d)
    \<or> ((\<forall>k \<in> set (map fst KEYWORD_TO_DISTRICT). \<not> (\<exists>a b. py_str num_str name = a @ k @ b)) \<and>
        match_district num_str name = unclassified))
   \<and> match_district num_str (Str [0xD3C9, 0xCC3D, 0xB3D9]) = Dobong_gu"
proof
  show "(\<exists>pre kw d post. KEYWORD_TO_DISTRICT = pre @ (kw, d) # post \<and>
        (\<exists>a b. py_str num_str name = a @ kw @ b) \<and>
        (\<forall>k \<in> set (map fst pre). \<not> (\<exists>a b. py_str num_str name = a @ k @ b)) \<and>
        match_district num_str name = d)
    \<or> ((\<forall>k \<in> set (map fst KEYWORD_TO_DISTRICT). \<not> (\<exists>a b. py_str num_str name = a @ k @ b)) \<and>
        match_district num_str name = unclassified)"
    using match_items_first [of KEYWORD_TO_DISTRICT "py_str num_str name"]
    unfolding match_district_def py_in_iff .
  show "match_district num_str (Str [0xD3C9, 0xCC3D, 0xB3D9]) = Dobong_gu"
    using pyeongchang_dong by (simp add: match_district_def)
qed

text \<open>
  The theorem at the name seo-ul-yeok (U+C11C U+C6B8 U+C5ED), in which no keyword
  occurs: the first alternative is excluded, so the label is the sentinel.
\<close>

theorem match_district_first_keyword_witness:
  "match_district (\<lambda>x. []) (Str [0xC11C, 0xC6B8, 0xC5ED]) = unclassified"
proof -
  have none: "\<forall>k \<in> set (map fst KEYWORD_TO_DISTRICT). \<not> py_in k [0xC11C, 0xC6B8, 0xC5ED]"
    by (simp add: KEYWORD_TO_DISTRICT_def startswith_def)
  have "(\<exists>pre kw d post. KEYWORD_TO_DISTRICT = pre @ (kw, d) # post \<and>
        (\<exists>a b. py_str (\<lambda>x. []) (Str [0xC11C, 0xC6B8, 0xC5ED]) = a @ kw @ b) \<and>
        (\<forall>k \<in> set (map fst pre).
           \<not> (\<exists>a b. py_str (\<lambda>x. []) (Str [0xC11C, 0xC6B8, 0xC5ED]) = a @ k @ b)) \<and>
        match_district (\<lambda>x. []) (Str [0xC11C, 0xC6B8, 0xC5ED]) = d)
    \<or> ((\<forall>k \<in> set (map fst KEYWORD_TO_DISTRICT).
           \<not> (\<exists>a b. py_str (\<lambda>x. []) (Str [0xC11C, 0xC6B8, 0xC5ED]) = a @ k @ b)) \<and>
        match_district (\<lambda>x. []) (Str [0xC11C, 0xC6B8, 0xC5ED]) = unclassified)"
    using match_district_first_keyword [of "\<lambda>x. []" "Str [0xC11C, 0xC6B8, 0xC5ED]"] by blast
  then show ?thesis
  proof (elim disjE exE conjE)
    fix pre kw d post a b
    assume table: "KEYWORD_TO_DISTRICT = pre @ (kw, d) # post"
      and occurs: "py_str (\<lambda>x. []) (Str [0xC11C, 0xC6B8, 0xC5ED]) = a @ kw @ b"
    have "kw \<in> set (map fst KEYWORD_TO_DISTRICT)"
      unfolding table by simp
    moreover from occurs have "[0xC11C, 0xC6B8, 0xC5ED] = a @ kw @ b"
      by simp
    then have "py_in kw [0xC11C, 0xC6B8, 0xC5ED]"
      unfolding py_in_iff by blast
    ultimately show ?thesis
      using none by blast
  qed
qed

text \<open>
  Claim C1 as the specification states it gives pyeong-chang-dong as a name that no
  keyword matches and that receives the sentinel. The keyword chang-dong occurs in it,
  and the label is do-bong-gu.
\<close>

theorem pyeongchang_not_sentinel_counterexample:
  "py_in [0xCC3D, 0xB3D9] [0xD3C9, 0xCC3D, 0xB3D9] \<and>
   match_district (\<lambda>x. []) (Str [0xD3C9, 0xCC3D, 0xB3D9]) = Dobong_gu \<and>
   match_district (\<lambda>x. []) (Str [0xD3C9, 0xCC3D, 0xB3D9]) \<noteq> unclassified"
  using pyeongchang_dong by (simp add: match_district_def startswith_def unclassified_def)

text \<open>
  Claim C8. The area name gang-nam-yeok meok-ja-gol-mok is classified as seo-cho-gu: the
  first item of the table whose keyword occurs in the name is gang-nam-yeok
  (U+AC15 U+B0A8 U+C5ED), mapped to seo-cho-gu; the bare keyword gang-nam
  (U+AC15 U+B0A8) is not a key of the table; and ap-gu-jeong (U+C555 U+AD6C U+C815),
  mapped to gang-nam-gu, does not occur in the name.
\<close>

theorem gangnam_station_alley:
  "match_district num_str (Str [0xAC15, 0xB0A8, 0xC5ED, 0x20, 0xBA39, 0xC790, 0xACE8, 0xBAA9]) = Seocho_gu \<and>
   find (\<lambda>(kw, d). py_in kw [0xAC15, 0xB0A8, 0xC5ED, 0x20, 0xBA39, 0xC790, 0xACE8, 0xBAA9])
     KEYWORD_TO_DISTRICT = Some ([0xAC15, 0xB0A8, 0xC5ED], Seocho_gu) \<and>
   map_of KEYWORD_TO_DISTRICT [0xAC15, 0xB0A8] = None \<and>
   map_of KEYWORD_TO_DISTRICT [0xC555, 0xAD6C, 0xC815] = Some Gangnam_gu \<and>
   \<not> py_in [0xC555, 0xAD6C, 0xC815] [0xAC15, 0xB0A8, 0xC5ED, 0x20, 0xBA39, 0xC790, 0xACE8, 0xBAA9]"
proof (intro conjI)
  show "match_district num_str (Str [0xAC15, 0xB0A8, 0xC5ED, 0x20, 0xBA39, 0xC790, 0xACE8, 0xBAA9]) = Seocho_gu"
    by (simp add: match_district_def KEYWORD_TO_DISTRICT_def startswith_def)
  show "find (\<lambda>(kw, d). py_in kw [0xAC15, 0xB0A8, 0xC5ED, 0x20, 0xBA39, 0xC790, 0xACE8, 0xBAA9])
     KEYWORD_TO_DISTRICT = Some ([0xAC15, 0xB0A8, 0xC5ED], Seocho_gu)"
    by (simp add: KEYWORD_TO_DISTRICT_def startswith_def)
  show "map_of KEYWORD_TO_DISTRICT [0xAC15, 0xB0A8] = None"
    by (simp add: KEYWORD_TO_DISTRICT_def)
  show "map_of KEYWORD_TO_DISTRICT [0xC555, 0xAD6C, 0xC815] = Some Gangnam_gu"
    by (simp add: KEYWORD_TO_DISTRICT_def)
  show "\<not> py_in [0xC555, 0xAD6C, 0xC815] [0xAC15, 0xB0A8, 0xC5ED, 0x20, 0xBA39, 0xC790, 0xACE8, 0xBAA9]"
    by (simp add: startswith_def)
qed

theorem gangnam_station_alley_witness:
  "match_district (\<lambda>x. []) (Str [0xAC15, 0xB0A8, 0xC5ED, 0x20, 0xBA39, 0xC790, 0xACE8, 0xBAA9]) = Seocho_gu"
  using gangnam_station_alley [of "\<lambda>x. []"] by blast

text \<open>
  Claim C10. The classifier is defined on every cell: it matches against the string form
  of the cell, so for text, for a number and for the missing value alike the result is
  the borough of some item of the table or the sentinel, and it is never the empty
  string. The missing value, whose string form is \<open>nan\<close>, receives the sentinel.
\<close>

theorem match_district_total:
  "match_district num_str name \<in> insert unclassified (set (map snd KEYWORD_TO_DISTRICT)) \<and>
   match_district num_str name \<noteq> [] \<and>
   match_district num_str NaN = unclassified"
proof (intro conjI)
  show range: "match_district num_str name \<in> insert unclassified (set (map snd KEYWORD_TO_DISTRICT))"
    unfolding match_district_def by (rule match_items_range)
  have "unclassified \<noteq> []"
    by (simp add: unclassified_def)
  with range boroughs_not_blank show "match_district num_str name \<noteq> []"
    by auto
  show "match_district num_str NaN = unclassified"
    by (simp add: match_district_def KEYWORD_TO_DISTRICT_def startswith_def)
qed

text \<open>The theorem at a number cell whose string form is \<open>20231\<close>.\<close>

theorem match_district_total_witness:
  "match_district (\<lambda>x. [0x32, 0x30, 0x32, 0x33, 0x31]) (Num 20231) \<noteq> [] \<and>
   match_district (\<lambda>x. [0x32, 0x30, 0x32, 0x33, 0x31]) NaN = unclassified"
  using match_district_total [of "\<lambda>x. [0x32, 0x30, 0x32, 0x33, 0x31]" "Num 20231"] by blast

lemma gangnam_alley_label:
  "match_district num_str (Str [0xAC15, 0xB0A8, 0xC5ED, 0x20, 0xBA39, 0xC790, 0xACE8, 0xBAA9]) = Seocho_gu"
  by (simp add: match_district_def KEYWORD_TO_DISTRICT_def startswith_def)

section \<open>Loading: what the coercion does to each cell\<close>

lemma coerce_cell_idem:
  "fillna0 (to_numeric parse (fillna0 (to_numeric parse c))) = fillna0 (to_numeric parse c)"
  by (cases c) (auto split: option.splits)

lemma coerce_cell_cases:
  "fillna0 (to_numeric parse c) =
     (case c of Num x \<Rightarrow> Num x
      | Str s \<Rightarrow> (case parse s of Some x \<Rightarrow> Num x | None \<Rightarrow> Num 0)
      | NaN \<Rightarrow> Num 0)"
  by (cases c) (auto split: option.splits)


lemma columns_coerce: "c \<in> set (columns df) \<Longrightarrow> columns (coerce parse c df) = columns df"
  by (simp add: coerce_def assign_def)

lemma columns_fold_coerce:
  "set cs \<subseteq> set (columns df) \<Longrightarrow> columns (fold (coerce parse) cs df) = columns df"
  by (induction cs arbitrary: df) (auto simp: columns_coerce)

lemma rows_fold_coerce:
  "rows (fold (coerce parse) cs df) =
     map (\<lambda>r c. if c \<in> set cs then fillna0 (to_numeric parse (r c)) else r c) (rows df)"
proof (induction cs arbitrary: df)
  case Nil
  then show ?case by simp
next
  case (Cons a cs)
  have "rows (fold (coerce parse) (a # cs) df) =
      map (\<lambda>r c. if c \<in> set cs then fillna0 (to_numeric parse (r c)) else r c)
        (rows (coerce parse a df))"
    using Cons.IH [of "coerce parse a df"] by simp
  also have "\<dots> =
      map (\<lambda>r c. if c \<in> set (a # cs) then fillna0 (to_numeric parse (r c)) else r c) (rows df)"
    by (auto simp: coerce_def assign_def fun_eq_iff coerce_cell_idem)
  finally show ?case .
qed

lemma district_col_not_numeric: "\<not> numeric_col district_col"
  by (simp add: numeric_col_def label_defs startswith_def)

lemma load_data_Some:
  assumes "area_col \<in> set (columns csv)"
  shows "load_data num_str parse (Some csv) =
    ([], Inr \<lparr>columns = (if district_col \<in> set (columns csv) then columns csv
                          else columns csv @ [district_col]),
             rows = map (loaded_row num_str parse csv) (rows csv)\<rparr>)"
proof -
  define df where "df = assign csv district_col (\<lambda>r. Str (match_district num_str (r area_col)))"
  have cols: "columns df =
      (if district_col \<in> set (columns csv) then columns csv else columns csv @ [district_col])"
    by (simp add: df_def assign_def)
  have incl: "set (numeric_cols df) \<subseteq> set (columns df)"
    by (auto simp: numeric_cols_def)
  have mem: "c \<in> set (numeric_cols df) \<longleftrightarrow> numeric_col c \<and> c \<in> set (columns csv)" for c
    using district_col_not_numeric by (auto simp: numeric_cols_def cols)
  have "columns (fold (coerce parse) (numeric_cols df) df) = columns df"
    using incl by (rule columns_fold_coerce)
  moreover have "rows (fold (coerce parse) (numeric_cols df) df) =
      map (loaded_row num_str parse csv) (rows csv)"
    unfolding rows_fold_coerce mem
    using district_col_not_numeric by (auto simp: df_def assign_def fun_eq_iff loaded_row_def)
  ultimately have "fold (coerce parse) (numeric_cols df) df =
     \<lparr>columns = (if district_col \<in> set (columns csv) then columns csv
                 else columns csv @ [district_col]),
      rows = map (loaded_row num_str parse csv) (rows csv)\<rparr>"
    using cols by (cases "fold (coerce parse) (numeric_cols df) df") simp
  then show ?thesis
    using assms by (simp add: load_data_def df_def Let_def)
qed

lemma load_data_Inr_cases:
  assumes "load_data num_str parse file = (shown, Inr df)"
  shows "(file = None \<and> shown = [Error_message] \<and> df = empty_frame) \<or>
         (\<exists>csv. file = Some csv \<and> area_col \<in> set (columns csv) \<and> shown = [] \<and>
            df = \<lparr>columns = (if district_col \<in> set (columns csv) then columns csv
                              else columns csv @ [district_col]),
                  rows = map (loaded_row num_str parse csv) (rows csv)\<rparr>)"
proof (cases "file")
  case None
  with assms show ?thesis
    by (simp add: load_data_def)
next
  case (Some csv)
  with assms have area: "area_col \<in> set (columns csv)"
    by (auto simp: load_data_def split: if_splits)
  from load_data_Some [OF area, of num_str parse] assms Some show ?thesis
    using area by auto
qed

text \<open>
  Claim C5. When the file does not exist, \<open>load_data\<close> shows the error message and
  returns the empty frame without raising, and the script shows nothing after it but
  the footer of the sidebar: no filter, no warning, no dashboard.
\<close>

theorem missing_file:
  "load_data num_str parse None = ([Error_message], Inr empty_frame) \<and>
   df_empty empty_frame \<and>
   app num_str parse None selected_dist selected_q = Inr [Error_message, Footer]"
  by (simp add: load_data_def app_def df_empty_def empty_frame_def)

theorem missing_file_witness:
  "app ex_num_str ex_parse None (Some Gangnam_gu) (Quarter 20231) = Inr [Error_message, Footer]"
  using missing_file [of ex_num_str ex_parse "Some Gangnam_gu" "Quarter 20231"] by blast

text \<open>
  Claim C6. For a file that has the area-name column, loading shows no message and
  returns a frame with as many rows as the file, row \<open>i\<close> made from row \<open>i\<close>. In every
  column of the file whose label contains the sales-amount or the sales-count pattern
  the cell is coerced: a number stays, text that the parser reads becomes its number,
  and text that it does not read and the missing value become zero. In the borough
  column the cell is the label of the classifier, and every other cell is the cell of
  the file.
\<close>

theorem load_data_coerces:
  assumes "area_col \<in> set (columns csv)"
  shows "\<exists>df. load_data num_str parse (Some csv) = ([], Inr df) \<and>
     length (rows df) = length (rows csv) \<and>
     (\<forall>i < length (rows csv). \<forall>c.
        (rows df ! i) c =
          (if (py_in sales_amount c \<or> py_in sales_count c) \<and> c \<in> set (columns csv) then
             (case (rows csv ! i) c of
                Num x \<Rightarrow> Num x
              | Str s \<Rightarrow> (case parse s of Some x \<Rightarrow> Num x | None \<Rightarrow> Num 0)
              | NaN \<Rightarrow> Num 0)
           else if c = district_col then Str (match_district num_str ((rows csv ! i) area_col))
           else (rows csv ! i) c))"
proof -
  let ?df = "\<lparr>columns = (if district_col \<in> set (columns csv) then columns csv
                          else columns csv @ [district_col]),
             rows = map (loaded_row num_str parse csv) (rows csv)\<rparr>"
  have "load_data num_str parse (Some csv) = ([], Inr ?df)"
    using assms by (rule load_data_Some)
  moreover have "length (rows ?df) = length (rows csv)"
    by simp
  moreover have "(rows ?df ! i) c =
          (if (py_in sales_amount c \<or> py_in sales_count c) \<and> c \<in> set (columns csv) then
             (case (rows csv ! i) c of
                Num x \<Rightarrow> Num x
              | Str s \<Rightarrow> (case parse s of Some x \<Rightarrow> Num x | None \<Rightarrow> Num 0)
              | NaN \<Rightarrow> Num 0)
           else if c = district_col then Str (match_district num_str ((rows csv ! i) area_col))
           else (rows csv ! i) c)" if "i < length (rows csv)" for i c
    using that by (simp add: loaded_row_def numeric_col_def coerce_cell_cases)
  ultimately show ?thesis
    by blast
qed

text \<open>
  The theorem on the example file: in its first row the text \<open>7\<close> of the male column
  becomes 7, the text \<open>x\<close> of the female column becomes 0, and the category keeps its
  text.
\<close>

theorem load_data_coerces_witness:
  "\<exists>df. load_data ex_num_str ex_parse (Some ex_csv) = ([], Inr df) \<and>
     length (rows df) = 3 \<and>
     (rows df ! 0) male_col = Num 7 \<and>
     (rows df ! 0) female_col = Num 0 \<and>
     (rows df ! 0) amount_col = Num 100 \<and>
     (rows df ! 0) category_col = Str [0x41] \<and>
     (rows df ! 0) district_col = Str Seocho_gu"
proof -
  have area: "area_col \<in> set (columns ex_csv)"
    by (simp add: ex_csv_def ex_columns_def)
  obtain df where df: "load_data ex_num_str ex_parse (Some ex_csv) = ([], Inr df)"
      "length (rows df) = length (rows ex_csv)"
    and cell: "\<And>i c. i < length (rows ex_csv) \<Longrightarrow> (rows df ! i) c =
          (if (py_in sales_amount c \<or> py_in sales_count c) \<and> c \<in> set (columns ex_csv) then
             (case (rows ex_csv ! i) c of
                Num x \<Rightarrow> Num x
              | Str s \<Rightarrow> (case ex_parse s of Some x \<Rightarrow> Num x | None \<Rightarrow> Num 0)
              | NaN \<Rightarrow> Num 0)
           else if c = district_col then Str (match_district ex_num_str ((rows ex_csv ! i) area_col))
           else (rows ex_csv ! i) c)"
    using load_data_coerces [OF area, of ex_num_str ex_parse] by blast
  have len: "length (rows ex_csv) = 3"
    by (simp add: ex_csv_def)
  have "(rows df ! 0) male_col = Num 7"
    using cell [of 0 male_col]
    by (simp add: ex_csv_def ex_columns_def ex_row_def ex_parse_def ex_age10_def ex_age20_def
        label_defs startswith_def)
  moreover have "(rows df ! 0) female_col = Num 0"
    using cell [of 0 female_col]
    by (simp add: ex_csv_def ex_columns_def ex_row_def ex_parse_def ex_age10_def ex_age20_def
        label_defs startswith_def)
  moreover have "(rows df ! 0) amount_col = Num 100"
    using cell [of 0 amount_col]
    by (simp add: ex_csv_def ex_columns_def ex_row_def ex_parse_def ex_age10_def ex_age20_def
        label_defs startswith_def)
  moreover have "(rows df ! 0) category_col = Str [0x41]"
    using cell [of 0 category_col]
    by (simp add: ex_csv_def ex_columns_def ex_row_def ex_parse_def ex_age10_def ex_age20_def
        label_defs startswith_def)
  moreover have "(rows df ! 0) district_col = Str Seocho_gu"
    using cell [of 0 district_col] gangnam_alley_label
    by (simp add: ex_csv_def ex_columns_def ex_row_def ex_parse_def ex_age10_def ex_age20_def
        label_defs startswith_def)
  ultimately show ?thesis
    using df len by auto
qed

section \<open>Filters: which rows a view can hold\<close>

lemma districts_not_sentinel: "districts df = Inr ds \<Longrightarrow> unclassified \<notin> set ds"
  by (auto simp: districts_def split: sum.splits)

lemma eq_district_label:
  "eq_district c selected \<Longrightarrow> \<exists>d. selected = Some d \<and> c = Str d"
  by (cases c; cases selected) auto

lemma selected_not_sentinel:
  assumes "districts df = Inr ds" and "selectable ds selected" and "eq_district c selected"
  shows "c \<noteq> Str unclassified"
proof -
  from assms(3) obtain d where d: "selected = Some d" "c = Str d"
    using eq_district_label by blast
  with assms(2) have "d \<in> set ds"
    by (simp add: selectable_def)
  with districts_not_sentinel [OF assms(1)] d show ?thesis
    by auto
qed

lemma sub_df_view:
  assumes "sub_df df selected_dist selected_q = Inr view"
  shows "columns view = columns df"
    and "set (rows view) \<subseteq> set (rows df)"
    and "\<forall>r \<in> set (rows view). eq_district (r district_col) selected_dist"
  using assms by (auto simp: sub_df_def select_rows_def split: if_splits qsel.splits)

lemma sub_df_without:
  assumes "\<forall>r \<in> set (rows df). eq_district (r district_col) selected_dist \<longrightarrow> keep r"
  shows "sub_df (select_rows keep df) selected_dist selected_q = sub_df df selected_dist selected_q"
proof -
  have "filter (\<lambda>r. eq_district (r district_col) selected_dist \<and> extra r) (filter keep (rows df)) =
      filter (\<lambda>r. eq_district (r district_col) selected_dist \<and> extra r) (rows df)" for extra
    using assms by (induction "rows df") (auto simp: filter_filter intro: filter_cong)
  from this [of "\<lambda>r. True"] this [of "\<lambda>r. eq_quarter (r quarter_col) n" for n]
  show ?thesis
    by (auto simp: sub_df_def select_rows_def split: qsel.splits)
qed

lemma view_rows_not_sentinel:
  assumes "districts df = Inr ds" and "selectable ds selected_dist"
    and "sub_df df selected_dist selected_q = Inr view"
  shows "\<forall>r \<in> set (rows view). r district_col \<noteq> Str unclassified"
  using sub_df_view(3) [OF assms(3)] selected_not_sentinel [OF assms(1,2)] by blast

text \<open>The example file after loading: its three labels, and its borough options.\<close>

lemma seoul_station_label:
  "match_district num_str (Str [0xC11C, 0xC6B8, 0xC5ED]) = unclassified"
  by (simp add: match_district_def KEYWORD_TO_DISTRICT_def startswith_def)

lemma gangnam_station_label:
  "match_district num_str (Str [0xAC15, 0xB0A8, 0xC5ED]) = Seocho_gu"
  by (simp add: match_district_def KEYWORD_TO_DISTRICT_def startswith_def)

lemma ex_area: "area_col \<in> set (columns ex_csv)"
  by (simp add: ex_csv_def ex_columns_def)

lemma ex_row_cells:
  "ex_row a q c m x y ma fe area_col = a"
  "ex_row a q c m x y ma fe quarter_col = q"
  "ex_row a q c m x y ma fe category_col = c"
  "ex_row a q c m x y ma fe amount_col = m"
  "ex_row a q c m x y ma fe ex_age10 = x"
  "ex_row a q c m x y ma fe ex_age20 = y"
  "ex_row a q c m x y ma fe male_col = ma"
  "ex_row a q c m x y ma fe female_col = fe"
  "ex_row a q c m x y ma fe district_col = NaN"
  by (simp_all add: ex_row_def label_defs ex_age10_def ex_age20_def)

lemma ex_numeric:
  "\<not> numeric_col area_col" "\<not> numeric_col quarter_col" "\<not> numeric_col category_col"
  "numeric_col amount_col" "numeric_col ex_age10" "numeric_col ex_age20"
  "numeric_col male_col" "numeric_col female_col"
  by (simp_all add: numeric_col_def label_defs ex_age10_def ex_age20_def startswith_def)

lemma ex_age:
  "\<not> age_col area_col" "\<not> age_col quarter_col" "\<not> age_col category_col"
  "\<not> age_col amount_col" "age_col ex_age10" "age_col ex_age20"
  "\<not> age_col male_col" "\<not> age_col female_col" "\<not> age_col district_col"
  by (simp_all add: age_col_def label_defs ex_age10_def ex_age20_def startswith_def)

lemma ex_no_district: "district_col \<notin> set ex_columns"
  by (simp add: ex_columns_def label_defs ex_age10_def ex_age20_def)

text \<open>The cells of a loaded row of a file with the columns of the examples.\<close>

lemma ex_loaded_cells:
  assumes "columns csv = ex_columns"
  shows "loaded_row ns p csv (ex_row a q c m x y ma fe) area_col = a"
    "loaded_row ns p csv (ex_row a q c m x y ma fe) quarter_col = q"
    "loaded_row ns p csv (ex_row a q c m x y ma fe) category_col = c"
    "loaded_row ns p csv (ex_row a q c m x y ma fe) amount_col = fillna0 (to_numeric p m)"
    "loaded_row ns p csv (ex_row a q c m x y ma fe) ex_age10 = fillna0 (to_numeric p x)"
    "loaded_row ns p csv (ex_row a q c m x y ma fe) ex_age20 = fillna0 (to_numeric p y)"
    "loaded_row ns p csv (ex_row a q c m x y ma fe) male_col = fillna0 (to_numeric p ma)"
    "loaded_row ns p csv (ex_row a q c m x y ma fe) female_col = fillna0 (to_numeric p fe)"
    "loaded_row ns p csv (ex_row a q c m x y ma fe) district_col = Str (match_district ns a)"
  using ex_no_district
  by (simp_all add: loaded_row_def assms ex_row_cells ex_numeric district_col_not_numeric)
    (simp_all add: ex_columns_def label_defs ex_age10_def ex_age20_def)

lemma ex_csv_columns: "columns ex_csv = ex_columns"
  by (simp add: ex_csv_def)

lemma ex_load: "load_data ex_num_str ex_parse (Some ex_csv) = ([], Inr ex_loaded)"
  using load_data_Some [OF ex_area, of ex_num_str ex_parse] ex_no_district
  by (simp add: ex_loaded_def ex_csv_columns)

lemma ex_loaded_rows:
  "rows ex_loaded =
     [loaded_row ex_num_str ex_parse ex_csv
        (ex_row (Str [0xAC15, 0xB0A8, 0xC5ED, 0x20, 0xBA39, 0xC790, 0xACE8, 0xBAA9]) (Num 20231)
           (Str [0x41]) (Num 100) (Num 10) (Num 90) (Str [0x37]) (Str [0x78])),
      loaded_row ex_num_str ex_parse ex_csv
        (ex_row (Str [0xAC15, 0xB0A8, 0xC5ED]) (Num 20232)
           (Str [0x42]) (Num 200) (Num 50) (Num 150) (Num 120) (Num 80)),
      loaded_row ex_num_str ex_parse ex_csv
        (ex_row (Str [0xC11C, 0xC6B8, 0xC5ED]) (Num 20231)
           (Str [0x42]) (Num 1000) (Num 500) (Num 500) (Num 500) (Num 500))]"
  by (simp add: ex_loaded_def ex_csv_def)

lemmas ex_cells =
  ex_loaded_cells [OF ex_csv_columns] gangnam_alley_label gangnam_station_label seoul_station_label

lemma ex_districts: "districts ex_loaded = Inr [Seocho_gu]"
  by (simp add: districts_def column_def ex_loaded_rows ex_cells unclassified_def)
    (simp add: ex_loaded_def)

lemma ex_sub_df: "sub_df ex_loaded (Some Seocho_gu) All_quarters = Inr ex_view"
  by (simp add: sub_df_def ex_view_def) (simp add: ex_loaded_def)

lemma ex_view_rows:
  "rows ex_view =
     [loaded_row ex_num_str ex_parse ex_csv
        (ex_row (Str [0xAC15, 0xB0A8, 0xC5ED, 0x20, 0xBA39, 0xC790, 0xACE8, 0xBAA9]) (Num 20231)
           (Str [0x41]) (Num 100) (Num 10) (Num 90) (Str [0x37]) (Str [0x78])),
      loaded_row ex_num_str ex_parse ex_csv
        (ex_row (Str [0xAC15, 0xB0A8, 0xC5ED]) (Num 20232)
           (Str [0x42]) (Num 200) (Num 50) (Num 150) (Num 120) (Num 80))]"
  by (simp add: ex_view_def select_rows_def ex_loaded_rows ex_cells unclassified_def)


text \<open>
  Claim C7, as amended. Every row whose area name contains no keyword is labelled with
  the sentinel, without any message. The sentinel is not among the borough options, so
  for every choice that the select boxes allow no row of the view carries the sentinel
  label, and the view is the same as the view of the frame without its sentinel rows:
  such rows enter no aggregate.
\<close>

theorem sentinel_rows_in_no_view:
  assumes "load_data num_str parse (Some csv) = (shown, Inr df)"
    and "districts df = Inr ds"
    and "selectable ds selected_dist"
    and "sub_df df selected_dist selected_q = Inr view"
  shows "shown = [] \<and>
    (\<forall>i < length (rows csv).
       (\<forall>k \<in> set (map fst KEYWORD_TO_DISTRICT). \<not> py_in k (py_str num_str ((rows csv ! i) area_col)))
         \<longrightarrow> (rows df ! i) district_col = Str unclassified) \<and>
    (\<forall>r \<in> set (rows view). r district_col \<noteq> Str unclassified) \<and>
    sub_df (select_rows (\<lambda>r. r district_col \<noteq> Str unclassified) df) selected_dist selected_q = Inr view"
proof (intro conjI)
  from load_data_Inr_cases [OF assms(1)]
  have shown: "shown = []"
    and df: "df = \<lparr>columns = (if district_col \<in> set (columns csv) then columns csv
                              else columns csv @ [district_col]),
                  rows = map (loaded_row num_str parse csv) (rows csv)\<rparr>"
    by auto
  show "shown = []"
    by (rule shown)
  show "\<forall>i < length (rows csv).
       (\<forall>k \<in> set (map fst KEYWORD_TO_DISTRICT). \<not> py_in k (py_str num_str ((rows csv ! i) area_col)))
         \<longrightarrow> (rows df ! i) district_col = Str unclassified"
    using match_items_no_keyword [of KEYWORD_TO_DISTRICT]
    by (simp add: df loaded_row_def district_col_not_numeric match_district_def)
  show "\<forall>r \<in> set (rows view). r district_col \<noteq> Str unclassified"
    using assms(2-4) by (rule view_rows_not_sentinel)
  have "\<forall>r \<in> set (rows df). eq_district (r district_col) selected_dist
      \<longrightarrow> r district_col \<noteq> Str unclassified"
    using selected_not_sentinel [OF assms(2,3)] by blast
  then show "sub_df (select_rows (\<lambda>r. r district_col \<noteq> Str unclassified) df) selected_dist
      selected_q = Inr view"
    using assms(4) by (simp add: sub_df_without)
qed

text \<open>
  The theorem on the example file, for the only borough option it has and all
  quarters: the view has two rows and the row of seo-ul-yeok, which carries the
  sentinel label in the loaded frame, is not one of them.
\<close>

theorem sentinel_rows_in_no_view_witness:
  "load_data ex_num_str ex_parse (Some ex_csv) = ([], Inr ex_loaded) \<and>
   districts ex_loaded = Inr [Seocho_gu] \<and>
   sub_df ex_loaded (Some Seocho_gu) All_quarters = Inr ex_view \<and>
   (rows ex_loaded ! 2) district_col = Str unclassified \<and>
   length (rows ex_view) = 2 \<and>
   rows ex_loaded ! 2 \<notin> set (rows ex_view)"
proof -
  have sel: "selectable [Seocho_gu] (Some Seocho_gu)"
    by (simp add: selectable_def)
  have label: "(rows ex_loaded ! 2) district_col = Str unclassified"
    by (simp add: ex_loaded_rows ex_cells)
  have "length (rows ex_view) = 2"
    by (simp add: ex_view_rows)
  moreover have "rows ex_loaded ! 2 \<notin> set (rows ex_view)"
    using sentinel_rows_in_no_view [OF ex_load ex_districts sel ex_sub_df] label by blast
  ultimately show ?thesis
    using ex_load ex_districts ex_sub_df label by blast
qed

text \<open>
  Claim C7 as the specification states it has the rows with the sentinel label included
  in aggregate totals. On the example file the row of seo-ul-yeok carries the sentinel
  label, and no choice of borough and quarter that the select boxes allow gives a view
  that holds it.
\<close>

theorem sentinel_row_counterexample:
  "load_data ex_num_str ex_parse (Some ex_csv) = ([], Inr ex_loaded) \<and>
   districts ex_loaded = Inr [Seocho_gu] \<and>
   (rows ex_loaded ! 2) district_col = Str unclassified \<and>
   \<not> (\<exists>selected_dist selected_q view.
        selectable [Seocho_gu] selected_dist \<and>
        sub_df ex_loaded selected_dist selected_q = Inr view \<and>
        rows ex_loaded ! 2 \<in> set (rows view))"
proof -
  have label: "(rows ex_loaded ! 2) district_col = Str unclassified"
    by (simp add: ex_loaded_rows ex_cells)
  have "\<not> (\<exists>selected_dist selected_q view.
        selectable [Seocho_gu] selected_dist \<and>
        sub_df ex_loaded selected_dist selected_q = Inr view \<and>
        rows ex_loaded ! 2 \<in> set (rows view))"
    using view_rows_not_sentinel [OF ex_districts] label by blast
  with ex_load ex_districts label show ?thesis
    by blast
qed


section \<open>Aggregation: sums, the first maximum, the ranking\<close>
































section \<open>Views of a loaded frame\<close>
















section \<open>The example frames, evaluated\<close>

text \<open>The summary of the example view.\<close>

lemma ex_age_cols: "age_cols ex_loaded = [ex_age10, ex_age20]"
  by (simp add: age_cols_def ex_loaded_def ex_columns_def ex_age)


lemma ex_bracket: "bracket_label ex_age20 = Inr [0x32, 0x30, 0xB300]"
  by (simp add: bracket_label_def ex_age20_def Let_def dae_def)




text \<open>The single-row view of the example.\<close>

lemma ex_single_rows:
  "rows ex_single =
     [loaded_row ex_num_str ex_parse ex_csv
        (ex_row (Str [0xAC15, 0xB0A8, 0xC5ED]) (Num 20232)
           (Str [0x42]) (Num 200) (Num 50) (Num 150) (Num 120) (Num 80))]"
  by (simp add: ex_single_def select_rows_def ex_loaded_rows ex_cells unclassified_def)

lemma ex_single_columns: "columns ex_single = ex_columns @ [district_col]"
  by (simp add: ex_single_def select_rows_def ex_loaded_def)


lemma ex_single_aggregate:
  "aggregate ex_loaded ex_single =
     Inr \<lparr>total_sales = 200, age_totals = [(ex_age10, 50), (ex_age20, 150)],
          main_age_group = [0x32, 0x30, 0xB300],
          industry_rank = [(Str [0x42], 200)],
          top_industry = Str [0x42], top_industry_val = 200, gender_data = [120, 80]\<rparr>"
proof -
  have sums: "column_sums ex_single [ex_age10, ex_age20] = Inr [(ex_age10, 50), (ex_age20, 150)]"
    by (simp add: col_sum_def col_nums_def column_def ex_single_columns ex_columns_def
        ex_single_rows ex_cells)
  have "column ex_single category_col = Inr [Str [0x42]]"
    by (simp add: column_def ex_single_columns ex_columns_def ex_single_rows ex_cells)
  moreover have "col_nums ex_single amount_col = Inr [200]"
    by (simp add: col_nums_def column_def ex_single_columns ex_columns_def ex_single_rows ex_cells)
  moreover have "group_keys [Str [0x42]] = [Str [0x42]]"
    by (simp add: group_keys_def)
  ultimately have rank: "ranking ex_single = Inr [(Str [0x42], 200)]"
    by (simp add: ranking_def group_means_def mean_def sort_values_desc_def)
  have cols: "col_sum ex_single amount_col = Inr 200" "col_sum ex_single male_col = Inr 120"
    "col_sum ex_single female_col = Inr 80"
    by (simp_all add: col_sum_def col_nums_def column_def ex_single_columns ex_columns_def
        ex_single_rows ex_cells)
  show ?thesis
    by (simp add: aggregate_def ex_age_cols sums ex_bracket rank cols py_int_def
        del: column_sums.simps)
qed












section \<open>The summary of a view\<close>











end
